theory Spec2Isabelle
  imports Complex_Main "HOL-Library.Word"
begin

section \<open>JavaScript strings and numbers\<close>

text \<open>
  A JavaScript string is a sequence of UTF-16 code units. Literals of the source are
  ASCII and are written through \<open>ascii\<close>.
\<close>

type_synonym code_unit = "16 word"
type_synonym js_string = "code_unit list"

definition ascii :: "string \<Rightarrow> js_string" where
  "ascii cs = map of_char cs"

text \<open>
  \<open>String.prototype.trim\<close> strips the code units of the ECMAScript productions
  WhiteSpace and LineTerminator from both ends.
\<close>

definition isWhiteSpace :: "code_unit \<Rightarrow> bool" where
  "isWhiteSpace c \<longleftrightarrow>
     c = 0x0009 \<or> c = 0x000A \<or> c = 0x000B \<or> c = 0x000C \<or> c = 0x000D \<or> c = 0x0020 \<or>
     c = 0x00A0 \<or> c = 0x1680 \<or> (0x2000 \<le> c \<and> c \<le> 0x200A) \<or> c = 0x2028 \<or>
     c = 0x2029 \<or> c = 0x202F \<or> c = 0x205F \<or> c = 0x3000 \<or> c = 0xFEFF"

definition trim :: "js_string \<Rightarrow> js_string" where
  "trim s = rev (dropWhile isWhiteSpace (rev (dropWhile isWhiteSpace s)))"

text \<open>\<open>Number.prototype.toString\<close> on the integers that \<open>Date.now()\<close> returns.\<close>

fun digits :: "nat \<Rightarrow> js_string" where
  "digits n =
     (if n < 10 then [of_nat (48 + n)]
      else digits (n div 10) @ [of_nat (48 + n mod 10)])"

declare digits.simps [simp del]

definition toString :: "int \<Rightarrow> js_string" where
  "toString i = (if i < 0 then 0x002D # digits (nat (- i)) else digits (nat i))"

text \<open>
  Numbers are modelled by the reals, with \<open>NaN\<close> added where the source can produce it
  (the level of a frame without samples is \<open>0 / 0\<close>).
\<close>

datatype js_number = Num real | NaN

section \<open>Data model\<close>

datatype role = User | Assistant

record message =
  id_m :: js_string
  role :: role
  text_m :: js_string
  timestamp :: int
  isTyping :: "bool option"

record chat_thread =
  id_t :: js_string
  title :: js_string
  messages :: "message list"
  updatedAt :: int

subsection \<open>Objects of the platform\<close>

datatype context_state = Suspended | Running | Closed

record audio_context =
  currentTime :: real
  state :: context_state

record audio_buffer =
  duration :: real

text \<open>
  An \<open>AudioBufferSourceNode\<close>: its buffer, the argument \<open>start\<close> was called with, and
  whether \<open>stop()\<close> has been called on it. A node on which \<open>stop()\<close> was called is
  silent from that call on.
\<close>

record source_node =
  buffer :: audio_buffer
  startedAt :: real
  stopped :: bool

datatype media_stream = MediaStream nat

text \<open>The session handle; \<open>close()\<close> may throw.\<close>

record live_session =
  close_throws :: bool

subsection \<open>Messages of the server\<close>

datatype transcription = Transcription (text_of: "js_string option")

text \<open>
  \<open>inlineData\<close> is the value of
  \<open>message.serverContent?.modelTurn?.parts?.[0]?.inlineData?.data\<close>, \<open>None\<close> when any
  link of the chain is undefined.
\<close>

record server_content =
  inlineData :: "js_string option"
  inputTranscription :: "transcription option"
  outputTranscription :: "transcription option"
  turnComplete :: bool
  interrupted :: bool

record live_server_message =
  serverContent :: "server_content option"

subsection \<open>State of the component\<close>

text \<open>
  The \<open>useState\<close> values and the \<open>useRef\<close> cells of \<open>App\<close>, and the store of the source
  nodes created so far (\<open>sourcesRef\<close> holds references into it).
\<close>

record app_state =
  threads :: "chat_thread list"
  activeThreadId :: "js_string option"
  isLive :: bool
  isSpeaking :: bool
  isInitializing :: bool
  audioLevel :: js_number
  inputAudioContextRef :: "audio_context option"
  outputAudioContextRef :: "audio_context option"
  nextStartTimeRef :: real
  sourcesRef :: "nat list"
  sessionRef :: "live_session option"
  streamRef :: "media_stream option"
  currentOutputTextRef :: js_string
  currentInputTextRef :: js_string
  nodes :: "nat \<Rightarrow> source_node option"
  nextNode :: nat

definition initial_state :: "chat_thread list \<Rightarrow> app_state" where
  "initial_state saved =
     \<lparr>threads = saved, activeThreadId = None, isLive = False, isSpeaking = False,
      isInitializing = False, audioLevel = Num 0, inputAudioContextRef = None,
      outputAudioContextRef = None, nextStartTimeRef = 0, sourcesRef = [],
      sessionRef = None, streamRef = None, currentOutputTextRef = [],
      currentInputTextRef = [], nodes = (\<lambda>_. None), nextNode = 0\<rparr>"

text \<open>
  A handler either returns, or throws (an \<open>async\<close> handler: its promise rejects) with
  the state as it is at the throw.
\<close>

datatype js_error =
  GenAIError | AudioContextError | GetUserMediaError | ConnectError | DecodeError

datatype handler_result =
    is_Returned: Returned (state_of: app_state)
  | is_Rejected: Rejected (error_of: js_error) (state_of: app_state)

section \<open>The live session\<close>

subsection \<open>startLiveSession\<close>

text \<open>
  What the platform answers to the calls of \<open>startLiveSession\<close>, in the order of the
  source: the \<open>GoogleGenAI\<close> constructor, the two \<open>AudioContext\<close> constructors,
  \<open>getUserMedia\<close> and \<open>ai.live.connect\<close>. \<open>None\<close> is a throw or a rejected promise.
\<close>

record start_env =
  genai_throws :: bool
  new_inputContext :: "audio_context option"
  new_outputContext :: "audio_context option"
  getUserMedia :: "media_stream option"
  connect :: "live_session option"

text \<open>The body of the \<open>try\<close> block (lines 98 to 188).\<close>

definition start_try :: "start_env \<Rightarrow> app_state \<Rightarrow> handler_result" where
  "start_try env s =
     (if genai_throws env then Rejected GenAIError s
      else case new_inputContext env of
        None \<Rightarrow> Rejected AudioContextError s
      | Some ic \<Rightarrow>
          let s1 = s\<lparr>inputAudioContextRef := Some ic\<rparr> in
          (case new_outputContext env of
             None \<Rightarrow> Rejected AudioContextError s1
           | Some oc \<Rightarrow>
               let s2 = s1\<lparr>outputAudioContextRef := Some oc\<rparr> in
               (case getUserMedia env of
                  None \<Rightarrow> Rejected GetUserMediaError s2
                | Some ms \<Rightarrow>
                    let s3 = s2\<lparr>streamRef := Some ms\<rparr> in
                    (case connect env of
                       None \<Rightarrow> Rejected ConnectError s3
                     | Some session \<Rightarrow> Returned (s3\<lparr>sessionRef := Some session\<rparr>)))))"

text \<open>
  The guard of line 94 returns without a value; the \<open>catch\<close> block logs the error and
  calls \<open>setIsInitializing(false)\<close>.
\<close>

definition startLiveSession :: "start_env \<Rightarrow> app_state \<Rightarrow> handler_result" where
  "startLiveSession env s =
     (if isInitializing s \<or> isLive s then Returned s
      else case start_try env (s\<lparr>isInitializing := True\<rparr>) of
        Returned s' \<Rightarrow> Returned s'
      | Rejected err s' \<Rightarrow> Returned (s'\<lparr>isInitializing := False\<rparr>))"

text \<open>
  The \<open>onopen\<close> callback. The audio graph it wires (the script processor whose callback
  is \<open>onaudioprocess\<close>) is not part of the state.
\<close>

definition onopen :: "app_state \<Rightarrow> app_state" where
  "onopen s = s\<lparr>isLive := True, isInitializing := False\<rparr>"

subsection \<open>onaudioprocess\<close>

definition frame_level :: "real list \<Rightarrow> js_number" where
  "frame_level inputData =
     (let sum = foldl (\<lambda>sum x. sum + x * x) 0 inputData
      in if length inputData = 0 then NaN
         else Num (sqrt (sum / real (length inputData))))"

definition onaudioprocess :: "real list \<Rightarrow> app_state \<Rightarrow> app_state" where
  "onaudioprocess inputData s = s\<lparr>audioLevel := frame_level inputData\<rparr>"

subsection \<open>onmessage\<close>

text \<open>\<open>Set.prototype.add\<close> and \<open>delete\<close> on a set kept in insertion order.\<close>

definition set_add :: "nat \<Rightarrow> nat list \<Rightarrow> nat list" where
  "set_add x xs = (if x \<in> set xs then xs else xs @ [x])"

definition set_delete :: "nat \<Rightarrow> nat list \<Rightarrow> nat list" where
  "set_delete x xs = removeAll x xs"

text \<open>
  Lines 139 to 141, for a truthy \<open>audioData\<close> and the output context \<open>ctx\<close>: the part
  of the audio block that runs before the \<open>await\<close> of line 142.
\<close>

definition before_await :: "audio_context \<Rightarrow> app_state \<Rightarrow> app_state" where
  "before_await ctx s =
     (let s1 = s\<lparr>isSpeaking := True\<rparr>
      in s1\<lparr>nextStartTimeRef := max (nextStartTimeRef s1) (currentTime ctx)\<rparr>)"

text \<open>
  Lines 143 to 152, for the decoded \<open>buffer\<close>: the part of the audio block that runs when
  the handler resumes. \<open>start\<close> is given \<open>nextStartTimeRef.current\<close> as it is then.
\<close>

definition schedule_source :: "audio_buffer \<Rightarrow> app_state \<Rightarrow> app_state" where
  "schedule_source buf s =
     (let source = nextNode s;
          s3 = s\<lparr>nodes := (nodes s)(source \<mapsto>
                    \<lparr>buffer = buf, startedAt = nextStartTimeRef s, stopped = False\<rparr>),
                 nextNode := Suc source\<rparr>;
          s4 = s3\<lparr>nextStartTimeRef := nextStartTimeRef s3 + duration buf\<rparr>
      in s4\<lparr>sourcesRef := set_add source (sourcesRef s4)\<rparr>)"

text \<open>The \<open>onended\<close> callback of a source (lines 146 to 149).\<close>

definition onended :: "nat \<Rightarrow> app_state \<Rightarrow> app_state" where
  "onended source s =
     (let s1 = s\<lparr>sourcesRef := set_delete source (sourcesRef s)\<rparr>
      in if length (sourcesRef s1) = 0 then s1\<lparr>isSpeaking := False\<rparr> else s1)"

text \<open>Lines 154 and 155: \<open>+=\<close> with an undefined \<open>text\<close> appends \<open>undefined\<close>.\<close>

definition append_text :: "js_string \<Rightarrow> transcription option \<Rightarrow> js_string" where
  "append_text acc tr =
     (case tr of
        None \<Rightarrow> acc
      | Some t \<Rightarrow> acc @ (case text_of t of None \<Rightarrow> ascii ''undefined'' | Some txt \<Rightarrow> txt))"

definition accumulate :: "server_content \<Rightarrow> app_state \<Rightarrow> app_state" where
  "accumulate c s =
     (let s1 = s\<lparr>currentInputTextRef := append_text (currentInputTextRef s) (inputTranscription c)\<rparr>
      in s1\<lparr>currentOutputTextRef := append_text (currentOutputTextRef s1) (outputTranscription c)\<rparr>)"

text \<open>
  The readings of the wall clock in the \<open>turnComplete\<close> block, one for each
  \<open>Date.now()\<close> and \<open>new Date()\<close> of lines 161 to 172.
\<close>

record wall_reads =
  now_currentId :: int
  now_newT :: int
  now_uId :: int
  now_uDate :: int
  now_aId :: int
  now_aDate :: int
  now_updatedAt :: int

text \<open>Line 161: \<open>activeThreadId || Date.now().toString()\<close>; the empty string is falsy.\<close>

definition truthy :: "js_string option \<Rightarrow> bool" where
  "truthy v = (case v of None \<Rightarrow> False | Some str \<Rightarrow> str \<noteq> [])"

definition currentId_of :: "js_string option \<Rightarrow> wall_reads \<Rightarrow> js_string" where
  "currentId_of activeThreadId_c w =
     (case activeThreadId_c of
        None \<Rightarrow> toString (now_currentId w)
      | Some tid \<Rightarrow> if tid \<noteq> [] then tid else toString (now_currentId w))"

text \<open>Lines 168 to 171.\<close>

definition newMsgs :: "wall_reads \<Rightarrow> js_string \<Rightarrow> js_string \<Rightarrow> message list" where
  "newMsgs w userTxt assistantTxt =
     (if userTxt \<noteq> [] then
        [\<lparr>id_m = ascii ''u-'' @ toString (now_uId w), role = User, text_m = userTxt,
          timestamp = now_uDate w, isTyping = None\<rparr>]
      else []) @
     (if assistantTxt \<noteq> [] then
        [\<lparr>id_m = ascii ''a-'' @ toString (now_aId w), role = Assistant, text_m = assistantTxt,
          timestamp = now_aDate w, isTyping = None\<rparr>]
      else [])"

text \<open>The updater of line 172.\<close>

definition appendMessages ::
  "js_string \<Rightarrow> message list \<Rightarrow> int \<Rightarrow> chat_thread list \<Rightarrow> chat_thread list" where
  "appendMessages currentId msgs upd prev =
     map (\<lambda>t. if id_t t = currentId
               then t\<lparr>messages := messages t @ msgs, updatedAt := upd\<rparr> else t) prev"

text \<open>
  Lines 158 to 175. \<open>activeThreadId_c\<close> is the \<open>activeThreadId\<close> of the closure: the
  callbacks of a session are created by the call of \<open>startLiveSession\<close> and keep the
  value of that render.
\<close>

definition on_turnComplete :: "js_string option \<Rightarrow> wall_reads \<Rightarrow> app_state \<Rightarrow> app_state" where
  "on_turnComplete activeThreadId_c w s =
     (let userTxt = trim (currentInputTextRef s);
          assistantTxt = trim (currentOutputTextRef s);
          s3 = (if userTxt \<noteq> [] \<or> assistantTxt \<noteq> [] then
                  let currentId = currentId_of activeThreadId_c w;
                      s1 = (if \<not> truthy activeThreadId_c then
                              s\<lparr>threads := \<lparr>id_t = currentId, title = ascii ''Voice Interaction'',
                                              messages = [], updatedAt = now_newT w\<rparr> # threads s,
                                activeThreadId := Some currentId\<rparr>
                            else s)
                  in s1\<lparr>threads := appendMessages currentId (newMsgs w userTxt assistantTxt)
                                      (now_updatedAt w) (threads s1)\<rparr>
                else s)
      in s3\<lparr>currentInputTextRef := [], currentOutputTextRef := []\<rparr>)"

text \<open>Lines 178 to 181.\<close>

definition stop_source :: "nat \<Rightarrow> (nat \<Rightarrow> source_node option) \<Rightarrow> (nat \<Rightarrow> source_node option)" where
  "stop_source i store = store(i := map_option (\<lambda>n. n\<lparr>stopped := True\<rparr>) (store i))"

definition on_interrupted :: "app_state \<Rightarrow> app_state" where
  "on_interrupted s =
     s\<lparr>nodes := fold stop_source (sourcesRef s) (nodes s), sourcesRef := [],
       nextStartTimeRef := 0, isSpeaking := False\<rparr>"

text \<open>Lines 154 to 182, for a message with a \<open>serverContent\<close>.\<close>

definition after_audio :: "js_string option \<Rightarrow> wall_reads \<Rightarrow> server_content \<Rightarrow> app_state \<Rightarrow> app_state" where
  "after_audio activeThreadId_c w c s =
     (let s1 = accumulate c s;
          s2 = (if turnComplete c then on_turnComplete activeThreadId_c w s1 else s1)
      in if interrupted c then on_interrupted s2 else s2)"

text \<open>
  The handler is an \<open>async\<close> function. It runs to its end at once when the message has
  no audio to play; otherwise it runs to the \<open>await\<close> of line 142 and is suspended there,
  and other events are handled before it resumes. A suspended handler keeps its message and
  the readings the wall clock will give it.
\<close>

record suspended =
  content :: server_content
  audioData :: js_string
  wall :: wall_reads

datatype onmessage_step = Finished handler_result | Suspended suspended app_state

text \<open>Lines 137 to 141, and lines 154 to 182 when line 138 finds nothing to play.\<close>

definition onmessage ::
  "js_string option \<Rightarrow> wall_reads \<Rightarrow> live_server_message \<Rightarrow> app_state
     \<Rightarrow> onmessage_step" where
  "onmessage activeThreadId_c w message s =
     (case serverContent message of
        None \<Rightarrow> Finished (Returned s)
      | Some c \<Rightarrow>
          (case (inlineData c, outputAudioContextRef s) of
             (Some d, Some ctx) \<Rightarrow>
               if d \<noteq> []
               then Suspended \<lparr>content = c, audioData = d, wall = w\<rparr> (before_await ctx s)
               else Finished (Returned (after_audio activeThreadId_c w c s))
           | _ \<Rightarrow> Finished (Returned (after_audio activeThreadId_c w c s))))"

text \<open>
  Lines 142 to 182: the suspended handler resumes when the promise of \<open>decodeAudioData\<close>
  settles. \<open>decodeAudioData\<close> (with \<open>decode\<close>) is imported from a module that is not part
  of the sources at hand: it is the parameter \<open>dec\<close>, \<open>None\<close> when it throws, and the
  handler then ends at line 142.
\<close>

definition onmessage_resume ::
  "(js_string \<Rightarrow> audio_buffer option) \<Rightarrow> js_string option \<Rightarrow> suspended \<Rightarrow> app_state
     \<Rightarrow> handler_result" where
  "onmessage_resume dec activeThreadId_c p s =
     (case dec (audioData p) of
        None \<Rightarrow> Rejected DecodeError s
      | Some buf \<Rightarrow>
          Returned (after_audio activeThreadId_c (wall p) (content p) (schedule_source buf s)))"

subsection \<open>stopLiveSession\<close>

text \<open>
  \<open>close()\<close> of the session is inside \<open>try { } catch(e) {}\<close>; \<open>close()\<close> of an audio
  context returns a promise whose rejection is caught by \<open>.catch(() => {})\<close>;
  \<open>track.stop()\<close> does not throw.
\<close>

definition close_session :: "live_session \<Rightarrow> js_error option" where
  "close_session h = (if close_throws h then Some ConnectError else None)"

definition release_context :: "audio_context option \<Rightarrow> audio_context option" where
  "release_context r =
     (case r of
        None \<Rightarrow> None
      | Some c \<Rightarrow> if state c \<noteq> Closed then None else Some c)"

definition stopLiveSession :: "app_state \<Rightarrow> handler_result" where
  "stopLiveSession s =
     (let s1 = (case sessionRef s of
                  None \<Rightarrow> s
                | Some h \<Rightarrow>
                    (case close_session h of
                       None \<Rightarrow> s\<lparr>sessionRef := None\<rparr>
                     | Some e \<Rightarrow> s\<lparr>sessionRef := None\<rparr>));
          s2 = (case streamRef s1 of None \<Rightarrow> s1 | Some ms \<Rightarrow> s1\<lparr>streamRef := None\<rparr>);
          s3 = s2\<lparr>inputAudioContextRef := release_context (inputAudioContextRef s2)\<rparr>;
          s4 = s3\<lparr>outputAudioContextRef := release_context (outputAudioContextRef s3)\<rparr>
      in Returned (s4\<lparr>isLive := False, isSpeaking := False, isInitializing := False,
                      audioLevel := Num 0\<rparr>))"

section \<open>Environment and runs\<close>

text \<open>The platform advances the clock of the output context; here it reads \<open>t\<close>.\<close>

definition clock_reads :: "real \<Rightarrow> app_state \<Rightarrow> app_state" where
  "clock_reads t s =
     s\<lparr>outputAudioContextRef := map_option (\<lambda>c. c\<lparr>currentTime := t\<rparr>) (outputAudioContextRef s)\<rparr>"

text \<open>
  The event loop: the state of the component and the handlers suspended at line 142.
  Events are handled one at a time: a message arrives (with the reading of the output
  clock at its arrival), the decode awaited by one of the suspended handlers settles, or
  a source ends.
\<close>

record event_loop =
  app :: app_state
  awaiting :: "suspended list"

datatype event =
    Message real wall_reads live_server_message
  | Decoded nat
  | Ended nat

fun dispatch ::
  "(js_string \<Rightarrow> audio_buffer option) \<Rightarrow> js_string option \<Rightarrow> event \<Rightarrow> event_loop
     \<Rightarrow> event_loop" where
  "dispatch dec activeThreadId_c (Message t w m) el =
     (case onmessage activeThreadId_c w m (clock_reads t (app el)) of
        Finished r \<Rightarrow> el\<lparr>app := state_of r\<rparr>
      | Suspended p s' \<Rightarrow> \<lparr>app = s', awaiting = awaiting el @ [p]\<rparr>)"
| "dispatch dec activeThreadId_c (Decoded k) el =
     (if k < length (awaiting el)
      then \<lparr>app = state_of (onmessage_resume dec activeThreadId_c (awaiting el ! k) (app el)),
            awaiting = take k (awaiting el) @ drop (Suc k) (awaiting el)\<rparr>
      else el)"
| "dispatch dec activeThreadId_c (Ended source) el = el\<lparr>app := onended source (app el)\<rparr>"

fun run ::
  "(js_string \<Rightarrow> audio_buffer option) \<Rightarrow> js_string option \<Rightarrow> event list \<Rightarrow> event_loop
     \<Rightarrow> event_loop" where
  "run dec activeThreadId_c [] el = el"
| "run dec activeThreadId_c (e # es) el =
     run dec activeThreadId_c es (dispatch dec activeThreadId_c e el)"

text \<open>An event loop with no handler suspended.\<close>

definition idle :: "app_state \<Rightarrow> event_loop" where
  "idle s = \<lparr>app = s, awaiting = []\<rparr>"


text \<open>The message carries audio data that line 138 finds truthy.\<close>

definition has_audio :: "live_server_message \<Rightarrow> bool" where
  "has_audio m =
     (case serverContent m of
        None \<Rightarrow> False
      | Some c \<Rightarrow> (case inlineData c of None \<Rightarrow> False | Some d \<Rightarrow> d \<noteq> []))"



text \<open>The argument \<open>start\<close> was called with, for the source \<open>i\<close> of the store.\<close>

definition scheduled_start :: "app_state \<Rightarrow> nat \<Rightarrow> real option" where
  "scheduled_start s i = map_option startedAt (nodes s i)"

text \<open>
  Whether the source \<open>i\<close> sounds at time \<open>t\<close> of the output clock, read in a state for
  the times from that state on: a source that has been stopped is silent.
\<close>

definition audible :: "app_state \<Rightarrow> nat \<Rightarrow> real \<Rightarrow> bool" where
  "audible s i t =
     (case nodes s i of
        None \<Rightarrow> False
      | Some n \<Rightarrow> \<not> stopped n \<and> startedAt n \<le> t \<and> t < startedAt n + duration (buffer n))"

text \<open>A reference to a context holds no open context.\<close>

definition context_released :: "audio_context option \<Rightarrow> bool" where
  "context_released r = (case r of None \<Rightarrow> True | Some c \<Rightarrow> state c = Closed)"

text \<open>
  No reference holds a context that is already closed. Contexts are closed by
  \<open>stopLiveSession\<close> only, which clears the reference in the same step.
\<close>

definition contexts_open :: "app_state \<Rightarrow> bool" where
  "contexts_open s \<longleftrightarrow>
     (case inputAudioContextRef s of None \<Rightarrow> True | Some c \<Rightarrow> state c \<noteq> Closed) \<and>
     (case outputAudioContextRef s of None \<Rightarrow> True | Some c \<Rightarrow> state c \<noteq> Closed)"


subsection \<open>Concrete inputs\<close>

definition fresh_context :: audio_context where
  "fresh_context = \<lparr>currentTime = 0, state = Running\<rparr>"

definition env_ok :: start_env where
  "env_ok = \<lparr>genai_throws = False, new_inputContext = Some fresh_context,
              new_outputContext = Some fresh_context, getUserMedia = Some (MediaStream 1),
              connect = Some \<lparr>close_throws = False\<rparr>\<rparr>"

text \<open>The user refuses the microphone: \<open>getUserMedia\<close> rejects.\<close>

definition env_denied :: start_env where
  "env_denied = env_ok\<lparr>getUserMedia := None, connect := None\<rparr>"

definition open_state :: app_state where
  "open_state = onopen (state_of (startLiveSession env_ok (initial_state [])))"

definition no_content :: server_content where
  "no_content = \<lparr>inlineData = None, inputTranscription = None, outputTranscription = None,
                  turnComplete = False, interrupted = False\<rparr>"

definition audio_chunk :: "js_string \<Rightarrow> live_server_message" where
  "audio_chunk d = \<lparr>serverContent = Some (no_content\<lparr>inlineData := Some d\<rparr>)\<rparr>"

definition input_fragment :: "js_string \<Rightarrow> live_server_message" where
  "input_fragment txt =
     \<lparr>serverContent = Some (no_content\<lparr>inputTranscription := Some (Transcription (Some txt))\<rparr>)\<rparr>"

definition output_fragment :: "js_string \<Rightarrow> live_server_message" where
  "output_fragment txt =
     \<lparr>serverContent = Some (no_content\<lparr>outputTranscription := Some (Transcription (Some txt))\<rparr>)\<rparr>"

definition turn_complete_event :: live_server_message where
  "turn_complete_event = \<lparr>serverContent = Some (no_content\<lparr>turnComplete := True\<rparr>)\<rparr>"

definition interrupted_event :: live_server_message where
  "interrupted_event = \<lparr>serverContent = Some (no_content\<lparr>interrupted := True\<rparr>)\<rparr>"

text \<open>Messages that carry audio together with another event.\<close>

definition interrupted_with_audio :: "js_string \<Rightarrow> live_server_message" where
  "interrupted_with_audio d =
     \<lparr>serverContent = Some (no_content\<lparr>inlineData := Some d, interrupted := True\<rparr>)\<rparr>"

definition turn_complete_with_audio :: "js_string \<Rightarrow> live_server_message" where
  "turn_complete_with_audio d =
     \<lparr>serverContent = Some (no_content\<lparr>inlineData := Some d, turnComplete := True\<rparr>)\<rparr>"

text \<open>A decoder for the examples: 24000 Hz, one 16-bit sample for every two code units.\<close>

definition dec_half :: "js_string \<Rightarrow> audio_buffer option" where
  "dec_half d = Some \<lparr>duration = real (length d) / 2\<rparr>"

definition wall0 :: wall_reads where
  "wall0 = \<lparr>now_currentId = 1700000000000, now_newT = 1700000000000, now_uId = 1700000000000,
             now_uDate = 1700000000000, now_aId = 1700000000000, now_aDate = 1700000000000,
             now_updatedAt = 1700000000001\<rparr>"

text \<open>A decoder that rejects every chunk.\<close>

definition dec_fails :: "js_string \<Rightarrow> audio_buffer option" where
  "dec_fails d = None"

text \<open>
  The open session after one chunk of one second, arrived when the clock read 1 and
  decoded before any other event.
\<close>

definition playing_state :: app_state where
  "playing_state =
     app (run dec_half None [Message 1 wall0 (audio_chunk (ascii ''ab'')), Decoded 0]
            (idle open_state))"


text \<open>
  The open session with one conversation selected, and accumulators that hold white space
  only.
\<close>

definition thread1 :: chat_thread where
  "thread1 = \<lparr>id_t = ascii ''1699999999999'', title = ascii ''New Conversation'',
               messages = [], updatedAt = 1699999999999\<rparr>"

definition silent_state :: app_state where
  "silent_state = open_state\<lparr>threads := [thread1], activeThreadId := Some (id_t thread1),
     currentInputTextRef := ascii ''  '', currentOutputTextRef := [0x000A]\<rparr>"

section \<open>Capture: the level of a frame\<close>

lemma foldl_squares: "foldl (\<lambda>sum x. sum + x * x) (a::real) xs = a + (\<Sum>x\<leftarrow>xs. x\<^sup>2)"
  by (induction xs arbitrary: a) (simp_all add: power2_eq_square add.assoc)

lemma sum_squares_zero: "\<forall>x\<in>set xs. x = (0::real) \<Longrightarrow> (\<Sum>x\<leftarrow>xs. x\<^sup>2) = 0"
  by (induction xs) simp_all

lemma sum_squares_unit:
  "\<forall>x\<in>set xs. \<bar>x\<bar> = (1::real) \<Longrightarrow> (\<Sum>x\<leftarrow>xs. x\<^sup>2) = real (length xs)"
proof (induction xs)
  case Nil
  then show ?case by simp
next
  case (Cons x xs)
  then have "\<bar>x\<bar> = 1" by simp
  then have "x\<^sup>2 = 1" by (simp add: abs_square_eq_1)
  with Cons show ?case by simp
qed

text \<open>
  Claim C9. For every captured frame (a frame has samples: the script processor delivers
  2048 of them), the level that \<open>onaudioprocess\<close> reports is the root mean square of the
  samples; a frame of zeros has level 0 and a frame whose samples all have magnitude 1
  has level 1. Samples and arithmetic are real numbers here.
\<close>

theorem level_is_rms:
  "inputData \<noteq> [] \<longrightarrow>
     audioLevel (onaudioprocess inputData s)
       = Num (sqrt ((\<Sum>x\<leftarrow>inputData. x\<^sup>2) / real (length inputData))) \<and>
     ((\<forall>x\<in>set inputData. x = 0) \<longrightarrow> audioLevel (onaudioprocess inputData s) = Num 0) \<and>
     ((\<forall>x\<in>set inputData. \<bar>x\<bar> = 1) \<longrightarrow> audioLevel (onaudioprocess inputData s) = Num 1)"
proof (intro impI conjI)
  assume ne: "inputData \<noteq> []"
  show rms: "audioLevel (onaudioprocess inputData s)
       = Num (sqrt ((\<Sum>x\<leftarrow>inputData. x\<^sup>2) / real (length inputData)))"
    using ne by (simp add: onaudioprocess_def frame_level_def foldl_squares)
  show "audioLevel (onaudioprocess inputData s) = Num 0" if "\<forall>x\<in>set inputData. x = 0"
    using that by (simp add: rms sum_squares_zero)
  show "audioLevel (onaudioprocess inputData s) = Num 1" if "\<forall>x\<in>set inputData. \<bar>x\<bar> = 1"
    using that ne by (simp add: rms sum_squares_unit)
qed

theorem level_is_rms_witness:
  "audioLevel (onaudioprocess [0, 0, 0] open_state) = Num 0 \<and>
   audioLevel (onaudioprocess [1, - 1, 1, 1] open_state) = Num 1 \<and>
   audioLevel (onaudioprocess [1/2, -1/2] open_state) = Num (1/2)"
proof -
  have a: "audioLevel (onaudioprocess [0, 0, 0] open_state) = Num 0"
    using level_is_rms [of "[0, 0, 0]" open_state] by simp
  have b: "audioLevel (onaudioprocess [1, - 1, 1, 1] open_state) = Num 1"
    using level_is_rms [of "[1, - 1, 1, 1]" open_state] by simp
  have "audioLevel (onaudioprocess [1/2, -1/2] open_state) = Num (sqrt (1/4))"
    using level_is_rms [of "[1/2, -1/2]" open_state] by (simp add: power2_eq_square)
  moreover have "sqrt (1/4) = 1/2"
    by (simp add: real_sqrt_divide)
  ultimately show ?thesis using a b by simp
qed

section \<open>Starting a session\<close>

lemma open_state_eq:
  "open_state = (initial_state [])\<lparr>isLive := True, inputAudioContextRef := Some fresh_context,
      outputAudioContextRef := Some fresh_context, streamRef := Some (MediaStream 1),
      sessionRef := Some \<lparr>close_throws = False\<rparr>\<rparr>"
  by (simp add: open_state_def onopen_def startLiveSession_def start_try_def env_ok_def
      initial_state_def)

text \<open>
  Claim C8, as the code has it. A call of \<open>startLiveSession\<close> made while the session is
  connecting or open returns at the guard of line 94: no error is raised and the state
  is left as it was.
\<close>

theorem reentry_returns_silently:
  "isInitializing s \<or> isLive s \<Longrightarrow> startLiveSession env s = Returned s"
  by (simp add: startLiveSession_def)

theorem reentry_returns_silently_witness:
  "isLive open_state \<and> startLiveSession env_ok open_state = Returned open_state"
proof -
  have "isLive open_state" by (simp add: open_state_eq)
  then show ?thesis using reentry_returns_silently [of open_state env_ok] by simp
qed

text \<open>
  Claim C8, as stated, fails: in the open session a second call is not rejected.
\<close>

theorem reentry_no_error_counterexample:
  "isLive open_state \<and> \<not> is_Rejected (startLiveSession env_ok open_state)"
  by (simp add: startLiveSession_def open_state_eq)

text \<open>
  Claim C6, at a start that fails. When \<open>getUserMedia\<close> rejects, the \<open>catch\<close> block
  resets \<open>isInitializing\<close> only: the two audio contexts created before the failure stay
  in their references, open.
\<close>

theorem failed_start_keeps_contexts:
  "startLiveSession env_denied (initial_state [])
     = Returned ((initial_state [])\<lparr>inputAudioContextRef := Some fresh_context,
                                     outputAudioContextRef := Some fresh_context\<rparr>)"
  by (simp add: startLiveSession_def start_try_def env_denied_def env_ok_def initial_state_def)

section \<open>Teardown\<close>

lemma stopLiveSession_eq:
  "stopLiveSession s =
     Returned (s\<lparr>sessionRef := None, streamRef := None,
                 inputAudioContextRef := release_context (inputAudioContextRef s),
                 outputAudioContextRef := release_context (outputAudioContextRef s),
                 isLive := False, isSpeaking := False, isInitializing := False,
                 audioLevel := Num 0\<rparr>)"
  by (cases s) (simp add: stopLiveSession_def close_session_def Let_def split: option.splits)

lemma release_context_idem: "release_context (release_context r) = release_context r"
  by (simp add: release_context_def split: option.splits)

lemma release_context_released: "context_released (release_context r)"
  by (simp add: release_context_def context_released_def split: option.splits)

lemma contexts_open_initial: "contexts_open (initial_state saved)"
  by (simp add: contexts_open_def initial_state_def)

text \<open>
  Claim C7. \<open>stopLiveSession\<close> never throws, from any state; calling it again changes
  nothing; before any start it leaves the initial state as it is. Afterwards the session
  is neither live nor initializing, the session handle and the capture stream are null,
  and no context reference holds an open context: both are null whenever no reference
  held an already closed context, which is so in every state the program reaches.
\<close>

theorem teardown_idempotent:
  "is_Returned (stopLiveSession s) \<and>
   stopLiveSession (state_of (stopLiveSession s)) = stopLiveSession s \<and>
   stopLiveSession (initial_state saved) = Returned (initial_state saved) \<and>
   \<not> isLive (state_of (stopLiveSession s)) \<and>
   \<not> isInitializing (state_of (stopLiveSession s)) \<and>
   sessionRef (state_of (stopLiveSession s)) = None \<and>
   streamRef (state_of (stopLiveSession s)) = None \<and>
   context_released (inputAudioContextRef (state_of (stopLiveSession s))) \<and>
   context_released (outputAudioContextRef (state_of (stopLiveSession s))) \<and>
   (contexts_open s \<longrightarrow>
      inputAudioContextRef (state_of (stopLiveSession s)) = None \<and>
      outputAudioContextRef (state_of (stopLiveSession s)) = None)"
proof -
  have twice: "stopLiveSession (state_of (stopLiveSession s)) = stopLiveSession s"
    by (simp add: stopLiveSession_eq release_context_idem)
  have init: "stopLiveSession (initial_state saved) = Returned (initial_state saved)"
    by (simp add: stopLiveSession_eq initial_state_def release_context_def)
  have nulls: "inputAudioContextRef (state_of (stopLiveSession s)) = None \<and>
      outputAudioContextRef (state_of (stopLiveSession s)) = None" if "contexts_open s"
    using that
    by (auto simp add: stopLiveSession_eq release_context_def contexts_open_def
        split: option.splits)
  show ?thesis
    using twice init nulls by (simp add: stopLiveSession_eq release_context_released)
qed

theorem teardown_idempotent_witness:
  "contexts_open open_state \<and>
   stopLiveSession open_state = Returned ((initial_state [])\<lparr>isLive := False\<rparr>) \<and>
   stopLiveSession (state_of (stopLiveSession open_state)) = stopLiveSession open_state \<and>
   inputAudioContextRef (state_of (stopLiveSession open_state)) = None \<and>
   outputAudioContextRef (state_of (stopLiveSession open_state)) = None"
proof -
  have o: "contexts_open open_state"
    by (simp add: contexts_open_def open_state_def onopen_def startLiveSession_def
        start_try_def env_ok_def initial_state_def fresh_context_def)
  have e: "stopLiveSession open_state = Returned ((initial_state [])\<lparr>isLive := False\<rparr>)"
    by (simp add: stopLiveSession_eq open_state_def onopen_def startLiveSession_def
        start_try_def env_ok_def initial_state_def fresh_context_def release_context_def)
  show ?thesis
    using o e teardown_idempotent [of open_state "[]"] by simp
qed

section \<open>Handling a message: what each block leaves alone\<close>

lemma fold_stop_source:
  "fold stop_source xs store i =
     (if i \<in> set xs then map_option (\<lambda>n. n\<lparr>stopped := True\<rparr>) (store i) else store i)"
proof (induction xs arbitrary: store)
  case Nil
  then show ?case by simp
next
  case (Cons x xs)
  have "fold stop_source (x # xs) store i = fold stop_source xs (stop_source x store) i"
    by simp
  also have "\<dots> = (if i \<in> set xs
      then map_option (\<lambda>n. n\<lparr>stopped := True\<rparr>) (stop_source x store i)
      else stop_source x store i)"
    by (rule Cons.IH)
  also have "\<dots> = (if i \<in> set (x # xs)
      then map_option (\<lambda>n. n\<lparr>stopped := True\<rparr>) (store i) else store i)"
    by (cases "store i") (auto simp add: stop_source_def)
  finally show ?case .
qed

lemma accumulate_frame:
  "nodes (accumulate c s) = nodes s" "sourcesRef (accumulate c s) = sourcesRef s"
  "nextStartTimeRef (accumulate c s) = nextStartTimeRef s" "nextNode (accumulate c s) = nextNode s"
  "outputAudioContextRef (accumulate c s) = outputAudioContextRef s"
  "threads (accumulate c s) = threads s" "activeThreadId (accumulate c s) = activeThreadId s"
  by (simp_all add: accumulate_def Let_def)

lemma on_turnComplete_frame:
  "nodes (on_turnComplete a w s) = nodes s" "sourcesRef (on_turnComplete a w s) = sourcesRef s"
  "nextStartTimeRef (on_turnComplete a w s) = nextStartTimeRef s"
  "nextNode (on_turnComplete a w s) = nextNode s"
  "outputAudioContextRef (on_turnComplete a w s) = outputAudioContextRef s"
  by (simp_all add: on_turnComplete_def Let_def)

lemma after_audio_frame:
  "\<not> interrupted c \<Longrightarrow> nodes (after_audio a w c s) = nodes s"
  "\<not> interrupted c \<Longrightarrow> sourcesRef (after_audio a w c s) = sourcesRef s"
  "\<not> interrupted c \<Longrightarrow> nextStartTimeRef (after_audio a w c s) = nextStartTimeRef s"
  "nextNode (after_audio a w c s) = nextNode s"
  "outputAudioContextRef (after_audio a w c s) = outputAudioContextRef s"
  by (simp_all add: after_audio_def Let_def accumulate_frame on_turnComplete_frame on_interrupted_def)

lemma after_audio_interrupted:
  "interrupted c \<Longrightarrow> sourcesRef (after_audio a w c s) = []"
  "interrupted c \<Longrightarrow> nextStartTimeRef (after_audio a w c s) = 0"
  "interrupted c \<Longrightarrow> nodes (after_audio a w c s) = fold stop_source (sourcesRef s) (nodes s)"
  by (simp_all add: after_audio_def Let_def accumulate_frame on_turnComplete_frame on_interrupted_def)

lemma before_await_simps:
  "nextStartTimeRef (before_await ctx s) = max (nextStartTimeRef s) (currentTime ctx)"
  "nodes (before_await ctx s) = nodes s" "nextNode (before_await ctx s) = nextNode s"
  "sourcesRef (before_await ctx s) = sourcesRef s"
  "threads (before_await ctx s) = threads s"
  "activeThreadId (before_await ctx s) = activeThreadId s"
  "currentInputTextRef (before_await ctx s) = currentInputTextRef s"
  "currentOutputTextRef (before_await ctx s) = currentOutputTextRef s"
  "inputAudioContextRef (before_await ctx s) = inputAudioContextRef s"
  "outputAudioContextRef (before_await ctx s) = outputAudioContextRef s"
  by (simp_all add: before_await_def Let_def)

lemma schedule_source_simps:
  "nextStartTimeRef (schedule_source buf s) = nextStartTimeRef s + duration buf"
  "nodes (schedule_source buf s) = (nodes s)(nextNode s \<mapsto>
      \<lparr>buffer = buf, startedAt = nextStartTimeRef s, stopped = False\<rparr>)"
  "nextNode (schedule_source buf s) = Suc (nextNode s)"
  "sourcesRef (schedule_source buf s) = set_add (nextNode s) (sourcesRef s)"
  "threads (schedule_source buf s) = threads s"
  "activeThreadId (schedule_source buf s) = activeThreadId s"
  "currentInputTextRef (schedule_source buf s) = currentInputTextRef s"
  "currentOutputTextRef (schedule_source buf s) = currentOutputTextRef s"
  "inputAudioContextRef (schedule_source buf s) = inputAudioContextRef s"
  "outputAudioContextRef (schedule_source buf s) = outputAudioContextRef s"
  by (simp_all add: schedule_source_def Let_def)

lemma onmessage_suspends:
  assumes "serverContent m = Some c" and "inlineData c = Some d" and "d \<noteq> []"
    and "outputAudioContextRef s = Some ctx"
  shows "onmessage a w m s
           = Suspended \<lparr>content = c, audioData = d, wall = w\<rparr> (before_await ctx s)"
  using assms by (simp add: onmessage_def)

lemma onmessage_finishes:
  assumes "serverContent m = Some c" and "\<not> has_audio m \<or> outputAudioContextRef s = None"
  shows "onmessage a w m s = Finished (Returned (after_audio a w c s))"
  using assms by (auto simp add: onmessage_def has_audio_def split: option.splits)

lemma onmessage_resume_decoded:
  "dec (audioData p) = Some buf \<Longrightarrow>
     onmessage_resume dec a p s
       = Returned (after_audio a (wall p) (content p) (schedule_source buf s))"
  by (simp add: onmessage_resume_def)

lemma onmessage_resume_fails:
  "dec (audioData p) = None \<Longrightarrow> onmessage_resume dec a p s = Rejected DecodeError s"
  by (simp add: onmessage_resume_def)

lemma after_audio_silences:
  assumes "interrupted c" and "i \<in> set (sourcesRef s)"
  shows "\<not> audible (after_audio a w c s) i t"
  using assms
  by (simp add: audible_def after_audio_interrupted fold_stop_source split: option.splits)

section \<open>Interruption\<close>

text \<open>
  Claim C3, as the code has it. When the handler of a message that carries
  \<open>interrupted\<close> reaches lines 177 to 182 (at once for a message with nothing to play,
  after the decode for a message whose audio decodes), the registry \<open>sourcesRef\<close> is
  empty afterwards, and no source that was in the registry sounds at any time: \<open>stop()\<close>
  has been called on each.
\<close>

theorem interruption_clears_all:
  assumes "interrupted c"
  shows "(serverContent m = Some c \<and> (\<not> has_audio m \<or> outputAudioContextRef s = None) \<longrightarrow>
            (\<exists>s'. onmessage a w m s = Finished (Returned s') \<and> sourcesRef s' = [] \<and>
                  (\<forall>i\<in>set (sourcesRef s). \<forall>t. \<not> audible s' i t))) \<and>
         (content p = c \<and> dec (audioData p) \<noteq> None \<longrightarrow>
            (\<exists>s'. onmessage_resume dec a p s = Returned s' \<and> sourcesRef s' = [] \<and>
                  (\<forall>i\<in>set (sourcesRef s). \<forall>t. \<not> audible s' i t)))"
proof (intro conjI impI)
  assume h: "serverContent m = Some c \<and> (\<not> has_audio m \<or> outputAudioContextRef s = None)"
  then have "onmessage a w m s = Finished (Returned (after_audio a w c s))"
    by (simp add: onmessage_finishes)
  moreover have "sourcesRef (after_audio a w c s) = []"
    using assms by (simp add: after_audio_interrupted)
  moreover have "\<forall>i\<in>set (sourcesRef s). \<forall>t. \<not> audible (after_audio a w c s) i t"
    using assms by (simp add: after_audio_silences)
  ultimately show "\<exists>s'. onmessage a w m s = Finished (Returned s') \<and> sourcesRef s' = [] \<and>
                  (\<forall>i\<in>set (sourcesRef s). \<forall>t. \<not> audible s' i t)"
    by simp
next
  assume h: "content p = c \<and> dec (audioData p) \<noteq> None"
  then obtain buf where buf: "dec (audioData p) = Some buf" by auto
  let ?s1 = "schedule_source buf s"
  have r: "onmessage_resume dec a p s = Returned (after_audio a (wall p) c ?s1)"
    using h buf by (simp add: onmessage_resume_decoded)
  have e: "sourcesRef (after_audio a (wall p) c ?s1) = []"
    using assms by (simp add: after_audio_interrupted)
  have "\<not> audible (after_audio a (wall p) c ?s1) i t" if "i \<in> set (sourcesRef s)" for i t
  proof -
    from that have "i \<in> set (sourcesRef ?s1)"
      by (simp add: schedule_source_simps set_add_def)
    with assms show ?thesis by (rule after_audio_silences)
  qed
  with r e show "\<exists>s'. onmessage_resume dec a p s = Returned s' \<and> sourcesRef s' = [] \<and>
                  (\<forall>i\<in>set (sourcesRef s). \<forall>t. \<not> audible s' i t)"
    by simp
qed

section \<open>The clock of the scheduler\<close>

text \<open>
  Claim C2, as the code has it. When a chunk arrives, line 141 sets \<open>nextStartTime\<close> to
  the maximum of its value and the reading of the output clock, so it is not below that
  reading then. When the chunk is scheduled after its decode, the source starts at
  \<open>nextStartTime\<close> as it is then, and \<open>nextStartTime\<close> is advanced by exactly the duration
  of the chunk. A handler that reaches the \<open>interrupted\<close> block leaves \<open>nextStartTime\<close>
  at 0, whatever the clock reads.
\<close>

theorem scheduling_clock:
  "(serverContent m = Some c \<and> inlineData c = Some d \<and> d \<noteq> [] \<and>
      outputAudioContextRef s = Some ctx \<longrightarrow>
      (\<exists>p s'. onmessage a w m s = Suspended p s' \<and>
         nextStartTimeRef s' = max (nextStartTimeRef s) (currentTime ctx) \<and>
         currentTime ctx \<le> nextStartTimeRef s')) \<and>
   (dec (audioData p) = Some buf \<and> \<not> interrupted (content p) \<longrightarrow>
      (\<exists>s'. onmessage_resume dec a p s = Returned s' \<and>
         scheduled_start s' (nextNode s) = Some (nextStartTimeRef s) \<and>
         nextStartTimeRef s' = nextStartTimeRef s + duration buf)) \<and>
   (serverContent m = Some c \<and> interrupted c \<and>
      (\<not> has_audio m \<or> outputAudioContextRef s = None) \<longrightarrow>
      (\<exists>s'. onmessage a w m s = Finished (Returned s') \<and> nextStartTimeRef s' = 0)) \<and>
   (dec (audioData p) = Some buf \<and> interrupted (content p) \<longrightarrow>
      (\<exists>s'. onmessage_resume dec a p s = Returned s' \<and> nextStartTimeRef s' = 0))"
proof (intro conjI impI)
  assume "serverContent m = Some c \<and> inlineData c = Some d \<and> d \<noteq> [] \<and>
      outputAudioContextRef s = Some ctx"
  then have "onmessage a w m s
      = Suspended \<lparr>content = c, audioData = d, wall = w\<rparr> (before_await ctx s)"
    by (simp add: onmessage_suspends)
  then show "\<exists>p s'. onmessage a w m s = Suspended p s' \<and>
         nextStartTimeRef s' = max (nextStartTimeRef s) (currentTime ctx) \<and>
         currentTime ctx \<le> nextStartTimeRef s'"
    by (simp add: before_await_simps)
next
  assume h: "dec (audioData p) = Some buf \<and> \<not> interrupted (content p)"
  then have "onmessage_resume dec a p s
      = Returned (after_audio a (wall p) (content p) (schedule_source buf s))"
    by (simp add: onmessage_resume_decoded)
  then show "\<exists>s'. onmessage_resume dec a p s = Returned s' \<and>
         scheduled_start s' (nextNode s) = Some (nextStartTimeRef s) \<and>
         nextStartTimeRef s' = nextStartTimeRef s + duration buf"
    using h by (simp add: scheduled_start_def after_audio_frame schedule_source_simps)
next
  assume h: "serverContent m = Some c \<and> interrupted c \<and>
      (\<not> has_audio m \<or> outputAudioContextRef s = None)"
  then have "onmessage a w m s = Finished (Returned (after_audio a w c s))"
    by (simp add: onmessage_finishes)
  then show "\<exists>s'. onmessage a w m s = Finished (Returned s') \<and> nextStartTimeRef s' = 0"
    using h by (simp add: after_audio_interrupted)
next
  assume h: "dec (audioData p) = Some buf \<and> interrupted (content p)"
  then have "onmessage_resume dec a p s
      = Returned (after_audio a (wall p) (content p) (schedule_source buf s))"
    by (simp add: onmessage_resume_decoded)
  then show "\<exists>s'. onmessage_resume dec a p s = Returned s' \<and> nextStartTimeRef s' = 0"
    using h by (simp add: after_audio_interrupted)
qed

section \<open>The turn aggregator\<close>

lemma trim_empty_iff: "trim str = [] \<longleftrightarrow> (\<forall>u\<in>set str. isWhiteSpace u)"
proof
  assume "trim str = []"
  then have all: "\<forall>u\<in>set (dropWhile isWhiteSpace str). isWhiteSpace u"
    by (simp add: trim_def)
  have "dropWhile isWhiteSpace str = []"
  proof (rule ccontr)
    assume ne: "dropWhile isWhiteSpace str \<noteq> []"
    then have "\<not> isWhiteSpace (hd (dropWhile isWhiteSpace str))"
      by (rule hd_dropWhile)
    moreover from ne have "hd (dropWhile isWhiteSpace str) \<in> set (dropWhile isWhiteSpace str)"
      by simp
    ultimately show False using all by blast
  qed
  then show "\<forall>u\<in>set str. isWhiteSpace u"
    by simp
next
  assume "\<forall>u\<in>set str. isWhiteSpace u"
  then have "dropWhile isWhiteSpace str = []"
    by simp
  then have "trim str = rev (dropWhile isWhiteSpace (rev []))"
    by (simp only: trim_def)
  then show "trim str = []"
    by simp
qed

lemma on_turnComplete_empty:
  assumes "trim (currentInputTextRef s) = []" and "trim (currentOutputTextRef s) = []"
  shows "on_turnComplete a w s = s\<lparr>currentInputTextRef := [], currentOutputTextRef := []\<rparr>"
  using assms by (simp add: on_turnComplete_def)

lemma after_audio_empty_turn:
  assumes "turnComplete c"
    and "trim (append_text (currentInputTextRef s) (inputTranscription c)) = []"
    and "trim (append_text (currentOutputTextRef s) (outputTranscription c)) = []"
  shows "threads (after_audio a w c s) = threads s"
    and "activeThreadId (after_audio a w c s) = activeThreadId s"
    and "currentInputTextRef (after_audio a w c s) = []"
    and "currentOutputTextRef (after_audio a w c s) = []"
    and "\<not> interrupted c \<Longrightarrow>
           after_audio a w c s = s\<lparr>currentInputTextRef := [], currentOutputTextRef := []\<rparr>"
  using assms
  by (simp_all add: after_audio_def accumulate_def on_turnComplete_def on_interrupted_def Let_def)

text \<open>
  Claim C5, as the code has it. The handler of a message with \<open>turnComplete\<close> reaches
  line 157 (at once for a message with nothing to play, after the decode for a message
  whose audio decodes) while both accumulators, with the fragments of that same message
  appended, hold nothing but white space: no message is built, no conversation receives a
  message, and both accumulators are empty afterwards.
\<close>

theorem empty_turn_no_messages:
  assumes "turnComplete c"
    and "\<forall>u\<in>set (append_text (currentInputTextRef s) (inputTranscription c)). isWhiteSpace u"
    and "\<forall>u\<in>set (append_text (currentOutputTextRef s) (outputTranscription c)). isWhiteSpace u"
  shows "newMsgs w (trim (append_text (currentInputTextRef s) (inputTranscription c)))
           (trim (append_text (currentOutputTextRef s) (outputTranscription c))) = [] \<and>
         (serverContent m = Some c \<and> (\<not> has_audio m \<or> outputAudioContextRef s = None) \<longrightarrow>
            (\<exists>s'. onmessage a w m s = Finished (Returned s') \<and>
               map messages (threads s') = map messages (threads s) \<and>
               currentInputTextRef s' = [] \<and> currentOutputTextRef s' = [])) \<and>
         (content p = c \<and> dec (audioData p) \<noteq> None \<longrightarrow>
            (\<exists>s'. onmessage_resume dec a p s = Returned s' \<and>
               map messages (threads s') = map messages (threads s) \<and>
               currentInputTextRef s' = [] \<and> currentOutputTextRef s' = []))"
proof (intro conjI impI)
  have t: "trim (append_text (currentInputTextRef s) (inputTranscription c)) = []"
    "trim (append_text (currentOutputTextRef s) (outputTranscription c)) = []"
    using assms(2,3) by (simp_all add: trim_empty_iff)
  show "newMsgs w (trim (append_text (currentInputTextRef s) (inputTranscription c)))
           (trim (append_text (currentOutputTextRef s) (outputTranscription c))) = []"
    by (simp add: t newMsgs_def)
  {
    assume "serverContent m = Some c \<and> (\<not> has_audio m \<or> outputAudioContextRef s = None)"
    then have "onmessage a w m s = Finished (Returned (after_audio a w c s))"
      by (simp add: onmessage_finishes)
    then show "\<exists>s'. onmessage a w m s = Finished (Returned s') \<and>
               map messages (threads s') = map messages (threads s) \<and>
               currentInputTextRef s' = [] \<and> currentOutputTextRef s' = []"
      by (simp add: after_audio_empty_turn [OF assms(1) t])
  }
  {
    assume h: "content p = c \<and> dec (audioData p) \<noteq> None"
    then obtain buf where buf: "dec (audioData p) = Some buf" by auto
    let ?s1 = "schedule_source buf s"
    have t1: "trim (append_text (currentInputTextRef ?s1) (inputTranscription c)) = []"
      "trim (append_text (currentOutputTextRef ?s1) (outputTranscription c)) = []"
      using t by (simp_all add: schedule_source_simps)
    have "onmessage_resume dec a p s = Returned (after_audio a (wall p) c ?s1)"
      using h buf by (simp add: onmessage_resume_decoded)
    then show "\<exists>s'. onmessage_resume dec a p s = Returned s' \<and>
               map messages (threads s') = map messages (threads s) \<and>
               currentInputTextRef s' = [] \<and> currentOutputTextRef s' = []"
      by (simp add: after_audio_empty_turn [OF assms(1) t1] schedule_source_simps)
  }
qed

text \<open>
  Claim C10, as the code has it. A message with \<open>turnComplete\<close> is handled while both
  trimmed texts are empty. The list of conversations and the selected conversation are
  unchanged by every step of its handler: the step at its arrival, whether the handler ends
  there or is suspended, and the step at which it resumes, whether the decode succeeds or
  fails. For a message with nothing to play and no \<open>interrupted\<close>, the state afterwards is
  the state before with the two accumulators cleared, and nothing else changed.
\<close>

theorem empty_turn_frame:
  assumes "turnComplete c"
    and "trim (append_text (currentInputTextRef s) (inputTranscription c)) = []"
    and "trim (append_text (currentOutputTextRef s) (outputTranscription c)) = []"
  shows "(serverContent m = Some c \<longrightarrow>
            (case onmessage a w m s of
               Finished r \<Rightarrow>
                 threads (state_of r) = threads s \<and> activeThreadId (state_of r) = activeThreadId s
             | Suspended q s' \<Rightarrow>
                 threads s' = threads s \<and> activeThreadId s' = activeThreadId s)) \<and>
         (content p = c \<longrightarrow>
            threads (state_of (onmessage_resume dec a p s)) = threads s \<and>
            activeThreadId (state_of (onmessage_resume dec a p s)) = activeThreadId s) \<and>
         (serverContent m = Some c \<and> (\<not> has_audio m \<or> outputAudioContextRef s = None) \<and>
            \<not> interrupted c \<longrightarrow>
            onmessage a w m s
              = Finished (Returned (s\<lparr>currentInputTextRef := [], currentOutputTextRef := []\<rparr>)))"
proof (intro conjI impI)
  note ae = after_audio_empty_turn [OF assms]
  {
    assume c: "serverContent m = Some c"
    show "case onmessage a w m s of
               Finished r \<Rightarrow>
                 threads (state_of r) = threads s \<and> activeThreadId (state_of r) = activeThreadId s
             | Suspended q s' \<Rightarrow>
                 threads s' = threads s \<and> activeThreadId s' = activeThreadId s"
    proof (cases "\<not> has_audio m \<or> outputAudioContextRef s = None")
      case True
      with c have "onmessage a w m s = Finished (Returned (after_audio a w c s))"
        by (simp add: onmessage_finishes)
      then show ?thesis by (simp add: ae)
    next
      case False
      with c obtain d ctx where "inlineData c = Some d" "d \<noteq> []"
        "outputAudioContextRef s = Some ctx"
        by (auto simp add: has_audio_def split: option.splits)
      with c have "onmessage a w m s
          = Suspended \<lparr>content = c, audioData = d, wall = w\<rparr> (before_await ctx s)"
        by (simp add: onmessage_suspends)
      then show ?thesis by (simp add: before_await_simps)
    qed
  }
  {
    assume p: "content p = c"
    show "threads (state_of (onmessage_resume dec a p s)) = threads s"
      and "activeThreadId (state_of (onmessage_resume dec a p s)) = activeThreadId s"
    proof -
      have "threads (state_of (onmessage_resume dec a p s)) = threads s \<and>
        activeThreadId (state_of (onmessage_resume dec a p s)) = activeThreadId s"
      proof (cases "dec (audioData p)")
        case None
        then show ?thesis by (simp add: onmessage_resume_fails)
      next
        case (Some buf)
        let ?s1 = "schedule_source buf s"
        have t1: "trim (append_text (currentInputTextRef ?s1) (inputTranscription c)) = []"
          "trim (append_text (currentOutputTextRef ?s1) (outputTranscription c)) = []"
          using assms(2,3) by (simp_all add: schedule_source_simps)
        show ?thesis
          using p Some by (simp add: onmessage_resume_decoded
              after_audio_empty_turn [OF assms(1) t1] schedule_source_simps)
      qed
      then show "threads (state_of (onmessage_resume dec a p s)) = threads s"
        and "activeThreadId (state_of (onmessage_resume dec a p s)) = activeThreadId s"
        by simp_all
    qed
  }
  {
    assume h: "serverContent m = Some c \<and> (\<not> has_audio m \<or> outputAudioContextRef s = None) \<and>
            \<not> interrupted c"
    then have "onmessage a w m s = Finished (Returned (after_audio a w c s))"
      by (simp add: onmessage_finishes)
    with h show "onmessage a w m s
              = Finished (Returned (s\<lparr>currentInputTextRef := [], currentOutputTextRef := []\<rparr>))"
      by (simp add: ae(5))
  }
qed

section \<open>The playback scheduler\<close>







section \<open>Runs of the examples\<close>

lemmas handler_defs = onmessage_def onmessage_resume_def before_await_def schedule_source_def
  after_audio_def accumulate_def on_turnComplete_def on_interrupted_def append_text_def
  clock_reads_def set_add_def idle_def Let_def

lemmas example_defs = audio_chunk_def input_fragment_def output_fragment_def
  turn_complete_event_def interrupted_event_def interrupted_with_audio_def
  turn_complete_with_audio_def no_content_def dec_half_def dec_fails_def ascii_def
  fresh_context_def initial_state_def

lemma playing_state_eq:
  "playing_state = open_state\<lparr>isSpeaking := True, nextStartTimeRef := 2, sourcesRef := [0],
     outputAudioContextRef := Some \<lparr>currentTime = 1, state = Running\<rparr>,
     nodes := (\<lambda>_. None)(0 \<mapsto> \<lparr>buffer = \<lparr>duration = 1\<rparr>, startedAt = 1, stopped = False\<rparr>),
     nextNode := Suc 0\<rparr>"
  by (simp add: playing_state_def open_state_eq handler_defs example_defs)


text \<open>
  Two runs where another message arrives while a chunk is being decoded. A later chunk
  arrives at clock 3/2, past \<open>nextStartTime\<close>: line 141 moves \<open>nextStartTime\<close>, and the
  chunk that arrived first, at clock 1, starts at 3/2. An interruption arrives: the chunk
  being decoded is then scheduled at 0, and enters the registry after the interruption
  has cleared it.
\<close>

lemma arrival_during_decode:
  "scheduled_start (app (run dec_half None
       [Message 1 wall0 (audio_chunk (ascii ''ab'')),
        Message (3/2) wall0 (audio_chunk (ascii ''cd'')), Decoded 0, Decoded 0]
       (idle open_state))) 0 = Some (3/2)"
  by (simp add: open_state_eq scheduled_start_def handler_defs example_defs)

lemma interruption_during_decode:
  "scheduled_start (app (run dec_half None
       [Message 1 wall0 (audio_chunk (ascii ''ab'')), Message 1 wall0 interrupted_event,
        Decoded 0] (idle open_state))) 0 = Some 0 \<and>
   sourcesRef (app (run dec_half None
       [Message 1 wall0 (audio_chunk (ascii ''ab'')), Message 1 wall0 interrupted_event,
        Decoded 0] (idle open_state))) = [0]"
  by (simp add: open_state_eq scheduled_start_def handler_defs example_defs)



text \<open>
  Claim C2, as stated, fails: in the open session a chunk is scheduled at clock 1, and an
  \<open>interrupted\<close> event arrives at clock 3/2; afterwards \<open>nextStartTime\<close> is 0, below
  the clock.
\<close>

theorem clock_invariant_counterexample:
  "map_option currentTime (outputAudioContextRef (app (run dec_half None
       [Message (3/2) wall0 interrupted_event] (idle playing_state)))) = Some (3/2) \<and>
   nextStartTimeRef (app (run dec_half None
       [Message (3/2) wall0 interrupted_event] (idle playing_state))) < 3/2"
  by (simp add: playing_state_eq open_state_eq handler_defs example_defs)

theorem scheduling_clock_witness:
  "(\<exists>p s'. onmessage None wall0 (audio_chunk (ascii ''ab'')) (clock_reads 3 playing_state)
        = Suspended p s' \<and> nextStartTimeRef s' = 3 \<and> 3 \<le> nextStartTimeRef s') \<and>
   (\<exists>s'. onmessage_resume dec_half None
        \<lparr>content = no_content\<lparr>inlineData := Some (ascii ''ab'')\<rparr>, audioData = ascii ''ab'',
         wall = wall0\<rparr> playing_state = Returned s' \<and>
      scheduled_start s' 1 = Some 2 \<and> nextStartTimeRef s' = 3) \<and>
   (\<exists>s'. onmessage None wall0 interrupted_event playing_state = Finished (Returned s') \<and>
      nextStartTimeRef s' = 0) \<and>
   (\<exists>s'. onmessage_resume dec_half None
        \<lparr>content = no_content\<lparr>inlineData := Some (ascii ''ab''), interrupted := True\<rparr>,
         audioData = ascii ''ab'', wall = wall0\<rparr> playing_state = Returned s' \<and>
      nextStartTimeRef s' = 0)"
proof -
  let ?c = "no_content\<lparr>inlineData := Some (ascii ''ab'')\<rparr>"
  let ?p = "\<lparr>content = ?c, audioData = ascii ''ab'', wall = wall0\<rparr>"
  let ?ci = "no_content\<lparr>inlineData := Some (ascii ''ab''), interrupted := True\<rparr>"
  let ?pi = "\<lparr>content = ?ci, audioData = ascii ''ab'', wall = wall0\<rparr>"
  let ?ctx = "\<lparr>currentTime = 3, state = Running\<rparr>"
  have ps: "nextStartTimeRef playing_state = 2" "nextNode playing_state = 1"
    "nextStartTimeRef (clock_reads 3 playing_state) = 2"
    "outputAudioContextRef (clock_reads 3 playing_state) = Some ?ctx"
    by (simp_all add: playing_state_eq clock_reads_def)
  have dab: "dec_half (ascii ''ab'') = Some \<lparr>duration = 1\<rparr>" "ascii ''ab'' \<noteq> []"
    by (simp_all add: dec_half_def ascii_def)
  have pa: "serverContent (audio_chunk (ascii ''ab'')) = Some ?c \<and>
      inlineData ?c = Some (ascii ''ab'') \<and> ascii ''ab'' \<noteq> [] \<and>
      outputAudioContextRef (clock_reads 3 playing_state) = Some ?ctx"
    using ps dab by (simp add: audio_chunk_def)
  have a: "\<exists>p s'. onmessage None wall0 (audio_chunk (ascii ''ab'')) (clock_reads 3 playing_state)
        = Suspended p s' \<and> nextStartTimeRef s' = 3 \<and> 3 \<le> nextStartTimeRef s'"
    using scheduling_clock [where a = None and w = wall0, THEN conjunct1, rule_format, OF pa]
    by (simp add: ps)
  have pb: "dec_half (audioData ?p) = Some \<lparr>duration = 1\<rparr> \<and> \<not> interrupted (content ?p)"
    using dab by (simp add: no_content_def)
  have b: "\<exists>s'. onmessage_resume dec_half None ?p playing_state = Returned s' \<and>
      scheduled_start s' 1 = Some 2 \<and> nextStartTimeRef s' = 3"
    using scheduling_clock [where a = None and s = playing_state and dec = dec_half and p = ?p,
        THEN conjunct2, THEN conjunct1, rule_format, OF pb]
    by (simp add: ps)
  have pc: "serverContent interrupted_event = Some (no_content\<lparr>interrupted := True\<rparr>) \<and>
      interrupted (no_content\<lparr>interrupted := True\<rparr>) \<and>
      (\<not> has_audio interrupted_event \<or> outputAudioContextRef playing_state = None)"
    by (simp add: interrupted_event_def has_audio_def no_content_def)
  have c: "\<exists>s'. onmessage None wall0 interrupted_event playing_state = Finished (Returned s') \<and>
      nextStartTimeRef s' = 0"
    using scheduling_clock [where a = None and w = wall0,
        THEN conjunct2, THEN conjunct2, THEN conjunct1, rule_format, OF pc] .
  have pd: "dec_half (audioData ?pi) = Some \<lparr>duration = 1\<rparr> \<and> interrupted (content ?pi)"
    using dab by simp
  have d: "\<exists>s'. onmessage_resume dec_half None ?pi playing_state = Returned s' \<and>
      nextStartTimeRef s' = 0"
    using scheduling_clock [where a = None and s = playing_state and dec = dec_half and p = ?pi,
        THEN conjunct2, THEN conjunct2, THEN conjunct2, rule_format, OF pd] .
  from a b c d show ?thesis by (intro conjI)
qed

text \<open>
  Claim C3, as stated, fails: while a source plays, a message arrives that carries
  \<open>interrupted\<close> and audio whose decode fails. The handler ends at line 142: the source
  is still in the registry and still sounds.
\<close>

theorem interruption_counterexample:
  "awaiting (run dec_fails None
       [Message (3/2) wall0 (interrupted_with_audio (ascii ''ab'')), Decoded 0]
       (idle playing_state)) = [] \<and>
   sourcesRef (app (run dec_fails None
       [Message (3/2) wall0 (interrupted_with_audio (ascii ''ab'')), Decoded 0]
       (idle playing_state))) = [0] \<and>
   audible (app (run dec_fails None
       [Message (3/2) wall0 (interrupted_with_audio (ascii ''ab'')), Decoded 0]
       (idle playing_state))) 0 (3/2)"
  by (simp add: playing_state_eq open_state_eq audible_def handler_defs example_defs)

theorem interruption_clears_all_witness:
  "sourcesRef playing_state = [0] \<and> audible playing_state 0 (3/2) \<and>
   (\<exists>s'. onmessage None wall0 interrupted_event playing_state = Finished (Returned s') \<and>
      sourcesRef s' = [] \<and> \<not> audible s' 0 (3/2)) \<and>
   (\<exists>s'. onmessage_resume dec_half None
        \<lparr>content = no_content\<lparr>inlineData := Some (ascii ''ab''), interrupted := True\<rparr>,
         audioData = ascii ''ab'', wall = wall0\<rparr> playing_state = Returned s' \<and>
      sourcesRef s' = [] \<and> \<not> audible s' 0 (3/2))"
proof -
  let ?ci = "no_content\<lparr>inlineData := Some (ascii ''ab''), interrupted := True\<rparr>"
  let ?pi = "\<lparr>content = ?ci, audioData = ascii ''ab'', wall = wall0\<rparr>"
  have r: "sourcesRef playing_state = [0]"
    by (simp add: playing_state_eq)
  have au: "audible playing_state 0 (3/2)"
    by (simp add: audible_def playing_state_eq)
  have dab: "dec_half (ascii ''ab'') \<noteq> None"
    by (simp add: dec_half_def)
  have i1: "interrupted (no_content\<lparr>interrupted := True\<rparr>)" and i2: "interrupted ?ci"
    by simp_all
  have z: "0 \<in> set (sourcesRef playing_state)"
    by (simp add: r)
  have pa: "serverContent interrupted_event = Some (no_content\<lparr>interrupted := True\<rparr>) \<and>
      (\<not> has_audio interrupted_event \<or> outputAudioContextRef playing_state = None)"
    by (simp add: interrupted_event_def has_audio_def no_content_def)
  from interruption_clears_all [where a = None and w = wall0, OF i1,
      THEN conjunct1, rule_format, OF pa]
  obtain s1 where s1: "onmessage None wall0 interrupted_event playing_state = Finished (Returned s1)
      \<and> sourcesRef s1 = [] \<and> (\<forall>i\<in>set (sourcesRef playing_state). \<forall>t. \<not> audible s1 i t)" ..
  with z have a: "\<exists>s'. onmessage None wall0 interrupted_event playing_state = Finished (Returned s') \<and>
      sourcesRef s' = [] \<and> \<not> audible s' 0 (3/2)"
    by (intro exI [of _ s1]) simp
  have pb: "content ?pi = ?ci \<and> dec_half (audioData ?pi) \<noteq> None"
    using dab by simp
  from interruption_clears_all [where a = None and s = playing_state and dec = dec_half
      and p = ?pi, OF i2, THEN conjunct2, rule_format, OF pb]
  obtain s2 where s2: "onmessage_resume dec_half None ?pi playing_state = Returned s2
      \<and> sourcesRef s2 = [] \<and> (\<forall>i\<in>set (sourcesRef playing_state). \<forall>t. \<not> audible s2 i t)" ..
  with z have b: "\<exists>s'. onmessage_resume dec_half None ?pi playing_state = Returned s' \<and>
      sourcesRef s' = [] \<and> \<not> audible s' 0 (3/2)"
    by (intro exI [of _ s2]) simp
  from r au a b show ?thesis by (intro conjI)
qed

text \<open>
  Claim C5, as stated, fails: both accumulators hold white space, and a message arrives
  that carries \<open>turnComplete\<close> and audio whose decode fails. The handler ends at line 142
  and the accumulators are not cleared.
\<close>

theorem empty_turn_counterexample:
  "awaiting (run dec_fails None
       [Message 0 wall0 (turn_complete_with_audio (ascii ''ab'')), Decoded 0]
       (idle silent_state)) = [] \<and>
   currentInputTextRef (app (run dec_fails None
       [Message 0 wall0 (turn_complete_with_audio (ascii ''ab'')), Decoded 0]
       (idle silent_state))) = [0x0020, 0x0020] \<and>
   currentOutputTextRef (app (run dec_fails None
       [Message 0 wall0 (turn_complete_with_audio (ascii ''ab'')), Decoded 0]
       (idle silent_state))) = [0x000A]"
  by (simp add: silent_state_def open_state_eq handler_defs example_defs)

theorem empty_turn_no_messages_witness:
  "currentInputTextRef silent_state = [0x0020, 0x0020] \<and>
   currentOutputTextRef silent_state = [0x000A] \<and>
   map messages (threads silent_state) = [Nil] \<and>
   (\<exists>s'. onmessage (Some (id_t thread1)) wall0 turn_complete_event silent_state
        = Finished (Returned s') \<and>
      map messages (threads s') = [Nil] \<and>
      currentInputTextRef s' = [] \<and> currentOutputTextRef s' = []) \<and>
   (\<exists>s'. onmessage_resume dec_half (Some (id_t thread1))
        \<lparr>content = no_content\<lparr>inlineData := Some (ascii ''ab''), turnComplete := True\<rparr>,
         audioData = ascii ''ab'', wall = wall0\<rparr> silent_state = Returned s' \<and>
      map messages (threads s') = [Nil] \<and>
      currentInputTextRef s' = [] \<and> currentOutputTextRef s' = [])"
proof -
  let ?c = "no_content\<lparr>turnComplete := True\<rparr>"
  let ?ca = "no_content\<lparr>inlineData := Some (ascii ''ab''), turnComplete := True\<rparr>"
  let ?p = "\<lparr>content = ?ca, audioData = ascii ''ab'', wall = wall0\<rparr>"
  have acc: "currentInputTextRef silent_state = [0x0020, 0x0020]"
    "currentOutputTextRef silent_state = [0x000A]"
    by (simp_all add: silent_state_def ascii_def)
  have th: "map messages (threads silent_state) = [Nil]"
    by (simp add: silent_state_def thread1_def)
  have t: "turnComplete ?c" "turnComplete ?ca"
    by simp_all
  have w: "\<forall>u\<in>set (append_text (currentInputTextRef silent_state) (inputTranscription ?c)).
      isWhiteSpace u"
    "\<forall>u\<in>set (append_text (currentOutputTextRef silent_state) (outputTranscription ?c)).
      isWhiteSpace u"
    "\<forall>u\<in>set (append_text (currentInputTextRef silent_state) (inputTranscription ?ca)).
      isWhiteSpace u"
    "\<forall>u\<in>set (append_text (currentOutputTextRef silent_state) (outputTranscription ?ca)).
      isWhiteSpace u"
    by (simp_all add: acc append_text_def no_content_def isWhiteSpace_def)
  have pa: "serverContent turn_complete_event = Some ?c \<and>
      (\<not> has_audio turn_complete_event \<or> outputAudioContextRef silent_state = None)"
    by (simp add: turn_complete_event_def has_audio_def no_content_def)
  have a: "\<exists>s'. onmessage (Some (id_t thread1)) wall0 turn_complete_event silent_state
        = Finished (Returned s') \<and>
      map messages (threads s') = [Nil] \<and>
      currentInputTextRef s' = [] \<and> currentOutputTextRef s' = []"
    using empty_turn_no_messages [where a = "Some (id_t thread1)" and w = wall0,
        OF t(1) w(1,2), THEN conjunct2, THEN conjunct1, rule_format, OF pa]
    by (simp only: th)
  have pb: "content ?p = ?ca \<and> dec_half (audioData ?p) \<noteq> None"
    by (simp add: dec_half_def)
  have b: "\<exists>s'. onmessage_resume dec_half (Some (id_t thread1)) ?p silent_state = Returned s' \<and>
      map messages (threads s') = [Nil] \<and>
      currentInputTextRef s' = [] \<and> currentOutputTextRef s' = []"
    using empty_turn_no_messages [where a = "Some (id_t thread1)" and dec = dec_half and p = ?p,
        OF t(2) w(3,4), THEN conjunct2, THEN conjunct2, rule_format, OF pb]
    by (simp only: th)
  from acc th a b show ?thesis by (intro conjI)
qed

text \<open>
  Claim C10, as stated, fails: for the same message, whose trimmed texts are both empty,
  the handler ends at line 142. The accumulators are not cleared, and \<open>isSpeaking\<close> has
  been set.
\<close>

theorem empty_turn_frame_counterexample:
  "trim (currentInputTextRef silent_state) = [] \<and>
   trim (currentOutputTextRef silent_state) = [] \<and>
   isSpeaking silent_state = False \<and>
   isSpeaking (app (run dec_fails None
       [Message 0 wall0 (turn_complete_with_audio (ascii ''ab'')), Decoded 0]
       (idle silent_state))) = True \<and>
   currentInputTextRef (app (run dec_fails None
       [Message 0 wall0 (turn_complete_with_audio (ascii ''ab'')), Decoded 0]
       (idle silent_state))) \<noteq> []"
  by (simp add: silent_state_def open_state_eq trim_def isWhiteSpace_def handler_defs
      example_defs)

theorem empty_turn_frame_witness:
  "trim (currentInputTextRef silent_state) = [] \<and> trim (currentOutputTextRef silent_state) = [] \<and>
   onmessage None wall0 turn_complete_event silent_state
     = Finished (Returned (silent_state\<lparr>currentInputTextRef := [], currentOutputTextRef := []\<rparr>)) \<and>
   threads (state_of (onmessage_resume dec_fails None
        \<lparr>content = no_content\<lparr>inlineData := Some (ascii ''ab''), turnComplete := True\<rparr>,
         audioData = ascii ''ab'', wall = wall0\<rparr> silent_state)) = [thread1]"
proof -
  let ?c = "no_content\<lparr>turnComplete := True\<rparr>"
  let ?ca = "no_content\<lparr>inlineData := Some (ascii ''ab''), turnComplete := True\<rparr>"
  let ?p = "\<lparr>content = ?ca, audioData = ascii ''ab'', wall = wall0\<rparr>"
  have w: "trim (currentInputTextRef silent_state) = []"
    "trim (currentOutputTextRef silent_state) = []"
    by (simp_all add: silent_state_def ascii_def isWhiteSpace_def trim_def)
  then have h: "trim (append_text (currentInputTextRef silent_state) (inputTranscription ?c)) = []"
    "trim (append_text (currentOutputTextRef silent_state) (outputTranscription ?c)) = []"
    "trim (append_text (currentInputTextRef silent_state) (inputTranscription ?ca)) = []"
    "trim (append_text (currentOutputTextRef silent_state) (outputTranscription ?ca)) = []"
    by (simp_all add: append_text_def no_content_def)
  have t: "turnComplete ?c" "turnComplete ?ca"
    by simp_all
  have th: "threads silent_state = [thread1]"
    by (simp add: silent_state_def)
  have pa: "serverContent turn_complete_event = Some ?c \<and>
      (\<not> has_audio turn_complete_event \<or> outputAudioContextRef silent_state = None) \<and>
      \<not> interrupted ?c"
    by (simp add: turn_complete_event_def has_audio_def no_content_def)
  have a: "onmessage None wall0 turn_complete_event silent_state
     = Finished (Returned (silent_state\<lparr>currentInputTextRef := [], currentOutputTextRef := []\<rparr>))"
    using empty_turn_frame [where a = None and w = wall0, OF t(1) h(1,2),
        THEN conjunct2, THEN conjunct2, rule_format, OF pa] .
  have pb: "content ?p = ?ca"
    by simp
  have b: "threads (state_of (onmessage_resume dec_fails None ?p silent_state)) = [thread1]"
    using empty_turn_frame [where a = None and dec = dec_fails and p = ?p, OF t(2) h(3,4),
        THEN conjunct2, THEN conjunct1, rule_format, OF pb]
    by (simp only: th)
  from w a b show ?thesis by (intro conjI)
qed




section \<open>The references across the handlers\<close>

text \<open>
  No handler leaves a closed context in a reference: \<open>contexts_open\<close> holds initially
  and every handler keeps it, the constructors returning contexts that are not closed.
  \<open>stopLiveSession\<close> and \<open>startLiveSession\<close> leave \<open>nextStartTimeRef\<close> as it is.
\<close>

lemma after_audio_contexts:
  "inputAudioContextRef (after_audio a w c s) = inputAudioContextRef s"
  "outputAudioContextRef (after_audio a w c s) = outputAudioContextRef s"
  by (simp_all add: after_audio_def accumulate_def on_turnComplete_def on_interrupted_def Let_def)

lemma contexts_open_frame:
  assumes "contexts_open s" and "inputAudioContextRef s' = inputAudioContextRef s"
    and "outputAudioContextRef s' = outputAudioContextRef s"
  shows "contexts_open s'"
  using assms by (simp add: contexts_open_def)

lemma contexts_open_onmessage:
  assumes "contexts_open s"
  shows "case onmessage a w m s of
           Finished r \<Rightarrow> contexts_open (state_of r)
         | Suspended p s' \<Rightarrow> contexts_open s'"
proof (cases "serverContent m")
  case None
  then show ?thesis using assms by (simp add: onmessage_def)
next
  case (Some c)
  show ?thesis
  proof (cases "\<not> has_audio m \<or> outputAudioContextRef s = None")
    case True
    with Some have "onmessage a w m s = Finished (Returned (after_audio a w c s))"
      by (simp add: onmessage_finishes)
    moreover have "contexts_open (after_audio a w c s)"
      using assms by (rule contexts_open_frame) (simp_all add: after_audio_contexts)
    ultimately show ?thesis by simp
  next
    case False
    with Some obtain d ctx where "inlineData c = Some d" "d \<noteq> []"
      "outputAudioContextRef s = Some ctx"
      by (auto simp add: has_audio_def split: option.splits)
    with Some have "onmessage a w m s
        = Suspended \<lparr>content = c, audioData = d, wall = w\<rparr> (before_await ctx s)"
      by (simp add: onmessage_suspends)
    moreover have "contexts_open (before_await ctx s)"
      using assms by (rule contexts_open_frame) (simp_all add: before_await_simps)
    ultimately show ?thesis by simp
  qed
qed

lemma contexts_open_onmessage_resume:
  assumes "contexts_open s"
  shows "contexts_open (state_of (onmessage_resume dec a p s))"
proof (cases "dec (audioData p)")
  case None
  then show ?thesis using assms by (simp add: onmessage_resume_fails)
next
  case (Some buf)
  have "contexts_open (after_audio a (wall p) (content p) (schedule_source buf s))"
    using assms
    by (rule contexts_open_frame) (simp_all add: after_audio_contexts schedule_source_simps)
  with Some show ?thesis by (simp add: onmessage_resume_decoded)
qed

lemma contexts_open_clock_reads: "contexts_open s \<Longrightarrow> contexts_open (clock_reads t s)"
  by (auto simp add: contexts_open_def clock_reads_def split: option.splits)

lemma contexts_open_callbacks:
  "contexts_open s \<Longrightarrow> contexts_open (onopen s)"
  "contexts_open s \<Longrightarrow> contexts_open (onaudioprocess inputData s)"
  "contexts_open s \<Longrightarrow> contexts_open (onended source s)"
  by (simp_all add: contexts_open_def onopen_def onaudioprocess_def onended_def Let_def)

lemma contexts_open_dispatch:
  assumes "contexts_open (app el)"
  shows "contexts_open (app (dispatch dec a e el))"
proof (cases e)
  case (Message t w m)
  from assms have "contexts_open (clock_reads t (app el))"
    by (rule contexts_open_clock_reads)
  from contexts_open_onmessage [OF this, of a w m] show ?thesis
    by (simp add: Message split: onmessage_step.splits)
next
  case (Decoded k)
  then show ?thesis
    using assms by (simp add: contexts_open_onmessage_resume)
next
  case (Ended i)
  then show ?thesis
    using assms by (simp add: contexts_open_callbacks)
qed

lemma contexts_open_run:
  "contexts_open (app el) \<Longrightarrow> contexts_open (app (run dec a es el))"
  by (induction es arbitrary: el) (simp_all add: contexts_open_dispatch del: dispatch.simps)

lemma contexts_open_startLiveSession:
  assumes "contexts_open s"
    and "context_released (new_inputContext env) \<Longrightarrow> new_inputContext env = None"
    and "context_released (new_outputContext env) \<Longrightarrow> new_outputContext env = None"
  shows "contexts_open (state_of (startLiveSession env s))"
  using assms
  by (auto simp add: startLiveSession_def start_try_def contexts_open_def context_released_def
      Let_def split: option.splits)

lemma contexts_open_stopLiveSession:
  "contexts_open s \<Longrightarrow> contexts_open (state_of (stopLiveSession s))"
  by (auto simp add: stopLiveSession_eq contexts_open_def release_context_def split: option.splits)

lemma stopLiveSession_keeps_schedule:
  "nextStartTimeRef (state_of (stopLiveSession s)) = nextStartTimeRef s"
  "sourcesRef (state_of (stopLiveSession s)) = sourcesRef s"
  by (simp_all add: stopLiveSession_eq)

lemma startLiveSession_keeps_schedule:
  "nextStartTimeRef (state_of (startLiveSession env s)) = nextStartTimeRef s"
  by (simp add: startLiveSession_def start_try_def Let_def split: option.splits)

end
